theory Spec2Isabelle
  imports Complex_Main
begin

section \<open>Numbers and identifiers\<close>

text \<open>
  A JavaScript \<open>Number\<close> holding a price or a fee is modelled by a real number with exact
  arithmetic; the rounding error of IEEE-754 doubles is outside the model. Quantities,
  stock levels and ratings, which the validators and the schemas keep integral, are
  integers. A MongoDB \<open>ObjectId\<close> is an opaque key, modelled by a natural number.
\<close>

type_synonym objectId = nat

text \<open>\<open>Math.round\<close> rounds to the nearest integer, a tie going towards plus infinity.\<close>

definition mathRound :: "real \<Rightarrow> int" where
  "mathRound x = \<lfloor>x + 1 / 2\<rfloor>"

text \<open>The idiom \<open>Math.round(x * 100) / 100\<close> of the models.\<close>

definition round2 :: "real \<Rightarrow> real" where
  "round2 x = of_int (mathRound (x * 100)) / 100"

section \<open>Coupon (models/Coupon.js)\<close>

datatype discountType = Percentage | Fixed | FreeDelivery

record couponUsage =
  usageUser :: objectId
  usageOrder :: objectId
  discountApplied :: real

record coupon =
  code :: string
  discountType :: discountType
  discountValue :: real
  maxDiscountAmount :: "real option"
  usageCount :: int
  usedBy :: "couponUsage list"

text \<open>
  \<open>calculateDiscount\<close>. The guard of the cap is
  \<open>this.maxDiscountAmount && discount > this.maxDiscountAmount\<close>: \<open>null\<close> and \<open>0\<close> are both
  falsy, so the cap applies only to a non-null, non-zero \<open>maxDiscountAmount\<close>.
\<close>

definition calculateDiscount :: "coupon \<Rightarrow> real \<Rightarrow> real \<Rightarrow> real" where
  "calculateDiscount c orderAmount fee =
     (let discount =
        (case discountType c of
           Percentage \<Rightarrow>
             (let d = (orderAmount * discountValue c) / 100 in
              case maxDiscountAmount c of
                None \<Rightarrow> d
              | Some m \<Rightarrow> if m \<noteq> 0 \<and> d > m then m else d)
         | Fixed \<Rightarrow> min (discountValue c) orderAmount
         | FreeDelivery \<Rightarrow> fee)
      in round2 discount)"

text \<open>\<open>useCoupon\<close>; the returned coupon is the saved document.\<close>

definition useCoupon :: "coupon \<Rightarrow> objectId \<Rightarrow> objectId \<Rightarrow> real \<Rightarrow> coupon" where
  "useCoupon c userId orderId applied =
     c\<lparr>usageCount := usageCount c + 1,
       usedBy := usedBy c @ [\<lparr>usageUser = userId, usageOrder = orderId, discountApplied = applied\<rparr>]\<rparr>"

section \<open>Cart (models/Cart.js)\<close>

record customization =
  customName :: string
  customOptions :: "string list"
  customPrice :: real

record addon =
  addonName :: string
  addonPrice :: real
  addonQuantity :: int

record cartItem =
  itemId :: objectId
  itemProduct :: objectId
  itemQuantity :: int
  customizations :: "customization list"
  addons :: "addon list"
  itemPrice :: real
  totalPrice :: real

record appliedCoupon =
  appliedCode :: string
  discountAmount :: real
  couponId :: objectId

record cart =
  cartItems :: "cartItem list"
  cartSubtotal :: real
  cartTax :: real
  cartDeliveryFee :: real
  cartServiceFee :: real
  cartDiscount :: real
  cartTotal :: real
  cartCoupon :: "appliedCoupon option"

text \<open>
  The pre-save hook that computes the totals, and \<open>save\<close>, which runs it. (The other
  pre-save hook only moves the expiry date and is left out.)
\<close>

definition calculateTotals :: "cart \<Rightarrow> cart" where
  "calculateTotals c =
     (let s = foldl (\<lambda>sum item. sum + totalPrice item) 0 (cartItems c);
          t = of_int (mathRound (s * (1 / 10) * 100)) / 100;
          f = of_int (mathRound (s * (2 / 100) * 100)) / 100;
          tot = s + t + cartDeliveryFee c + f - cartDiscount c
      in c\<lparr>cartSubtotal := s, cartTax := t, cartServiceFee := f,
            cartTotal := of_int (mathRound (tot * 100)) / 100\<rparr>)"

definition saveCart :: "cart \<Rightarrow> cart" where
  "saveCart c = calculateTotals c"

text \<open>\<open>Array.prototype.findIndex\<close>: the first index whose element satisfies the predicate.\<close>

fun findIndex :: "('a \<Rightarrow> bool) \<Rightarrow> 'a list \<Rightarrow> nat option" where
  "findIndex P [] = None"
| "findIndex P (x # xs) =
     (if P x then Some 0 else map_option Suc (findIndex P xs))"

text \<open>
  \<open>addItem\<close>. The comparison of the \<open>JSON.stringify\<close> images of the customizations and
  addons is modelled by equality of the lists.
\<close>

definition addItem :: "cart \<Rightarrow> cartItem \<Rightarrow> cart" where
  "addItem c productData =
     (case findIndex (\<lambda>item. itemProduct item = itemProduct productData
                            \<and> customizations item = customizations productData
                            \<and> addons item = addons productData) (cartItems c) of
        Some i \<Rightarrow>
          (let old = cartItems c ! i;
               q = itemQuantity old + itemQuantity productData;
               new = old\<lparr>itemQuantity := q, totalPrice := itemPrice old * of_int q\<rparr>
           in saveCart (c\<lparr>cartItems := (cartItems c)[i := new]\<rparr>))
      | None \<Rightarrow> saveCart (c\<lparr>cartItems := cartItems c @ [productData]\<rparr>))"

datatype cartError = ItemNotFound

text \<open>
  \<open>updateItemQuantity\<close> throws when no item has the id; \<open>items.pull(id)\<close> removes the
  items with that id.
\<close>

definition pull :: "cartItem list \<Rightarrow> objectId \<Rightarrow> cartItem list" where
  "pull xs i = filter (\<lambda>item. itemId item \<noteq> i) xs"

definition updateItemQuantity :: "cart \<Rightarrow> objectId \<Rightarrow> int \<Rightarrow> cartError + cart" where
  "updateItemQuantity c i quantity =
     (case findIndex (\<lambda>item. itemId item = i) (cartItems c) of
        None \<Rightarrow> Inl ItemNotFound
      | Some k \<Rightarrow>
          if quantity \<le> 0 then Inr (saveCart (c\<lparr>cartItems := pull (cartItems c) i\<rparr>))
          else
            (let old = cartItems c ! k;
                 new = old\<lparr>itemQuantity := quantity, totalPrice := itemPrice old * of_int quantity\<rparr>
             in Inr (saveCart (c\<lparr>cartItems := (cartItems c)[k := new]\<rparr>))))"

definition removeItem :: "cart \<Rightarrow> objectId \<Rightarrow> cart" where
  "removeItem c i = saveCart (c\<lparr>cartItems := pull (cartItems c) i\<rparr>)"

definition clearCart :: "cart \<Rightarrow> cart" where
  "clearCart c = saveCart (c\<lparr>cartItems := [], cartCoupon := None, cartDiscount := 0\<rparr>)"

definition applyCoupon :: "cart \<Rightarrow> objectId \<Rightarrow> coupon \<Rightarrow> real \<Rightarrow> cart" where
  "applyCoupon c cid cp amount =
     saveCart (c\<lparr>cartCoupon := Some \<lparr>appliedCode = code cp, discountAmount = amount, couponId = cid\<rparr>,
                 cartDiscount := amount\<rparr>)"

definition removeCoupon :: "cart \<Rightarrow> cart" where
  "removeCoupon c = saveCart (c\<lparr>cartCoupon := None, cartDiscount := 0\<rparr>)"

text \<open>
  The invariant of a saved cart, in the words of the specification: the subtotal is the
  sum of the items' total prices, tax and service fee are 10 and 2 per cent of it, each
  rounded to two decimals, and the total is the rounded sum less the discount.
\<close>

definition cartTotalsInvariant :: "cart \<Rightarrow> bool" where
  "cartTotalsInvariant c \<longleftrightarrow>
     cartSubtotal c = sum_list (map totalPrice (cartItems c))
     \<and> cartTax c = round2 (0.10 * cartSubtotal c)
     \<and> cartServiceFee c = round2 (0.02 * cartSubtotal c)
     \<and> cartTotal c =
         round2 (cartSubtotal c + cartTax c + cartDeliveryFee c + cartServiceFee c - cartDiscount c)"

section \<open>Product (models/Product.js)\<close>

record choice =
  choiceName :: string
  choicePrice :: real

record productOption =
  optionName :: string
  choices :: "choice list"

datatype productDiscountType = PercentageOff | FixedOff

record productDiscount =
  pdType :: productDiscountType
  pdValue :: real
  startDate :: "int option"
  endDate :: "int option"
  pdIsActive :: bool

record product =
  productStore :: objectId
  price :: real
  productOptions :: "productOption list"
  isAvailable :: bool
  stock :: "int option"
  productTotalOrders :: int
  productDiscount :: productDiscount

text \<open>
  The virtual \<open>finalPrice\<close>, read at time \<open>now\<close> (milliseconds). The test of the discount
  type is \<open>=== "percentage"\<close> with an \<open>else\<close>, so every other type is priced as a fixed one.
\<close>

definition finalPrice :: "int \<Rightarrow> product \<Rightarrow> real" where
  "finalPrice now p =
     (let d = productDiscount p in
      if \<not> pdIsActive d then price p
      else if (case startDate d of Some s \<Rightarrow> now < s | None \<Rightarrow> False) then price p
      else if (case endDate d of Some e \<Rightarrow> now > e | None \<Rightarrow> False) then price p
      else (case pdType d of
              PercentageOff \<Rightarrow> price p * (1 - pdValue d / 100)
            | FixedOff \<Rightarrow> max 0 (price p - pdValue d)))"

text \<open>\<open>isInStock\<close>; a \<open>null\<close> stock (\<open>None\<close>) means unlimited.\<close>

definition isInStock :: "product \<Rightarrow> int \<Rightarrow> bool" where
  "isInStock p quantity =
     (case stock p of
        None \<Rightarrow> isAvailable p
      | Some s \<Rightarrow> isAvailable p \<and> s \<ge> quantity)"

section \<open>Store (models/Store.js)\<close>

record deliveryInfo =
  deliveryRadius :: real
  deliveryFee :: real

record storeRating =
  average :: real
  count :: real

record store =
  owner :: objectId
  isActive :: bool
  deliveryInfo :: deliveryInfo
  storeRating :: storeRating
  storeTotalOrders :: int
  totalRevenue :: real

text \<open>
  \<open>updateRating\<close>, with its \<open>save\<close>. The schema bounds the average by 0 and 5 and puts no
  bound on the count, which the stores router can write as any number. \<open>save\<close> rejects
  (\<open>None\<close>) an average outside the bounds; when the new count is 0 the quotient is an
  infinity or \<open>NaN\<close>, which \<open>save\<close> rejects as well.
\<close>

definition updateRating :: "store \<Rightarrow> real \<Rightarrow> store option" where
  "updateRating s newRating =
     (let totalRating = average (storeRating s) * count (storeRating s) + newRating;
          n = count (storeRating s) + 1
      in if n = 0 then None
         else
           (let a = totalRating / n
            in if a < 0 \<or> 5 < a then None
               else Some (s\<lparr>storeRating := \<lparr>average = a, count = n\<rparr>\<rparr>)))"

text \<open>
  \<open>canDeliverTo\<close>. The distance is \<open>distanceFrom\<close> of the delivery coordinates, a Haversine
  formula in floating-point trigonometry; its value is taken as given.
\<close>

definition canDeliverTo :: "store \<Rightarrow> real \<Rightarrow> bool" where
  "canDeliverTo s distance \<longleftrightarrow> distance \<le> deliveryRadius (deliveryInfo s)"

section \<open>User and Order (models/User.js, models/Order.js)\<close>

datatype role = Client | StoreOwner | Admin | DeliveryDriver

record user =
  userRole :: role
  userIsActive :: bool
  loyaltyPoints :: int

datatype orderStatus =
  Pending | Confirmed | Preparing | Ready | OnWay | Delivered | Cancelled | Refunded

record orderOption =
  chosenOption :: string
  chosenChoice :: string

record orderItem =
  orderedProduct :: objectId
  orderedPrice :: real
  orderedQuantity :: int
  orderedOptions :: "orderOption list"

record pricing =
  subtotal :: real
  pricingDeliveryFee :: real
  serviceFee :: real
  tax :: real
  discount :: real
  pricingTotal :: real

datatype couponType = PercentageCoupon | FixedCoupon

record orderCoupon =
  orderCouponCode :: string
  orderCouponType :: couponType
  orderCouponDiscount :: real

record timing =
  estimatedPreparation :: int
  estimatedDelivery :: int
  confirmedAt :: "int option"
  preparedAt :: "int option"
  pickedUpAt :: "int option"
  deliveredAt :: "int option"

record orderRating =
  food :: "int option"
  delivery :: "int option"
  overall :: "int option"
  ratedAt :: "int option"

record order =
  customer :: objectId
  orderStore :: objectId
  orderItems :: "orderItem list"
  status :: orderStatus
  orderPricing :: pricing
  appliedOrderCoupon :: "orderCoupon option"
  orderTiming :: timing
  rating :: orderRating
  cancellationReason :: "string option"
  loyaltyPointsEarned :: int

definition calculateLoyaltyPoints :: "order \<Rightarrow> int" where
  "calculateLoyaltyPoints ord = \<lfloor>pricingTotal (orderPricing ord) / 10\<rfloor>"

definition canBeCancelled :: "order \<Rightarrow> bool" where
  "canBeCancelled ord \<longleftrightarrow> status ord \<in> set [Pending, Confirmed]"

text \<open>\<open>canBeRated\<close>: \<open>!this.rating.overall\<close> holds of an unset rating and of 0.\<close>

definition canBeRated :: "order \<Rightarrow> bool" where
  "canBeRated ord \<longleftrightarrow>
     status ord = Delivered \<and> (overall (rating ord) = None \<or> overall (rating ord) = Some 0)"

text \<open>
  The values of the schema's \<open>status\<close> enum. A status that is none of them makes \<open>save\<close>
  fail its validation.
\<close>

definition statusOfString :: "string \<Rightarrow> orderStatus option" where
  "statusOfString s =
     map_of [(''pending'', Pending), (''confirmed'', Confirmed), (''preparing'', Preparing),
             (''ready'', Ready), (''on_way'', OnWay), (''delivered'', Delivered),
             (''cancelled'', Cancelled), (''refunded'', Refunded)] s"

text \<open>
  \<open>updateStatus\<close>, up to its \<open>save\<close>: the new status is assigned whatever the current one
  is, then the time stamp of the stage is set.
\<close>

definition updateStatus :: "int \<Rightarrow> order \<Rightarrow> orderStatus \<Rightarrow> order" where
  "updateStatus now ord newStatus =
     (let o1 = ord\<lparr>status := newStatus\<rparr>;
          t = orderTiming o1
      in case newStatus of
           Confirmed \<Rightarrow> o1\<lparr>orderTiming := t\<lparr>confirmedAt := Some now\<rparr>\<rparr>
         | Ready \<Rightarrow> o1\<lparr>orderTiming := t\<lparr>preparedAt := Some now\<rparr>\<rparr>
         | OnWay \<Rightarrow> o1\<lparr>orderTiming := t\<lparr>pickedUpAt := Some now\<rparr>\<rparr>
         | Delivered \<Rightarrow>
             o1\<lparr>orderTiming := t\<lparr>deliveredAt := Some now\<rparr>,
                loyaltyPointsEarned := calculateLoyaltyPoints o1\<rparr>
         | _ \<Rightarrow> o1)"

text \<open>The schema bounds \<open>min: 1, max: 5\<close> of the three ratings, checked by \<open>save\<close>.\<close>

definition ratingInBounds :: "int option \<Rightarrow> bool" where
  "ratingInBounds r = (case r of None \<Rightarrow> True | Some n \<Rightarrow> 1 \<le> n \<and> n \<le> 5)"

definition validRating :: "orderRating \<Rightarrow> bool" where
  "validRating r \<longleftrightarrow> ratingInBounds (food r) \<and> ratingInBounds (delivery r) \<and> ratingInBounds (overall r)"

section \<open>The database\<close>

text \<open>
  The collections the order routes touch. Orders are never deleted by the routes; an
  order's id is its position in the collection, and a created order is appended.
\<close>

record db =
  stores :: "objectId \<rightharpoonup> store"
  products :: "objectId \<rightharpoonup> product"
  orders :: "order list"
  users :: "objectId \<rightharpoonup> user"
  coupons :: "coupon list"

definition findOrder :: "db \<Rightarrow> objectId \<Rightarrow> order option" where
  "findOrder d i = (if i < length (orders d) then Some (orders d ! i) else None)"

definition saveOrder :: "db \<Rightarrow> objectId \<Rightarrow> order \<Rightarrow> db" where
  "saveOrder d i ord = d\<lparr>orders := (orders d)[i := ord]\<rparr>"

text \<open>
  The update \<open>$inc: {stock: ds, totalOrders: dt}\<close> on one product. MongoDB rejects \<open>$inc\<close>
  on a field that holds \<open>null\<close> ("Cannot apply $inc to a value of non-numeric type"), and
  then changes nothing; \<open>None\<close> is that error.
\<close>

definition incProduct :: "int \<Rightarrow> int \<Rightarrow> product \<Rightarrow> product option" where
  "incProduct ds dt p =
     (case stock p of
        None \<Rightarrow> None
      | Some s \<Rightarrow> Some (p\<lparr>stock := Some (s + ds), productTotalOrders := productTotalOrders p + dt\<rparr>))"

text \<open>\<open>Product.findByIdAndUpdate\<close>: no document with the id is no error and no change.\<close>

definition productFindByIdAndUpdate ::
  "objectId \<Rightarrow> (product \<Rightarrow> product option) \<Rightarrow> (objectId \<rightharpoonup> product) \<Rightarrow> (objectId \<rightharpoonup> product) option" where
  "productFindByIdAndUpdate i upd ps =
     (case ps i of
        None \<Rightarrow> Some ps
      | Some p \<Rightarrow> (case upd p of None \<Rightarrow> None | Some p' \<Rightarrow> Some (ps(i \<mapsto> p'))))"

datatype response =
  Created order | OK order | BadRequest | Unauthorized | Forbidden | NotFound | ServerError

fun statusCode :: "response \<Rightarrow> nat" where
  "statusCode (Created _) = 201"
| "statusCode (OK _) = 200"
| "statusCode BadRequest = 400"
| "statusCode Unauthorized = 401"
| "statusCode Forbidden = 403"
| "statusCode NotFound = 404"
| "statusCode ServerError = 500"

text \<open>
  The middleware \<open>protect\<close>, after the token has named a user id: the user must exist and
  be active.
\<close>

definition protect :: "db \<Rightarrow> objectId \<Rightarrow> user option" where
  "protect d uid =
     (case users d uid of
        None \<Rightarrow> None
      | Some u \<Rightarrow> if userIsActive u then Some u else None)"

section \<open>Order routes (routes/orders.js)\<close>

subsection \<open>POST /api/orders\<close>

record requestItem =
  productId :: objectId
  quantity :: int
  options :: "orderOption list option"

record orderRequest =
  storeId :: objectId
  items :: "requestItem list"
  couponCode :: "string option"

text \<open>
  The validators the handler enforces on what the model keeps of the body: at least
  one item, every quantity an integer of at least 1. (The checks of the address, the
  telephone number and the payment method concern fields that are left out.)
\<close>

definition validationErrors :: "orderRequest \<Rightarrow> bool" where
  "validationErrors req \<longleftrightarrow> items req = [] \<or> list_ex (\<lambda>item. quantity item < 1) (items req)"

text \<open>The inner loop over the requested options of one item.\<close>

fun optionsPriceLoop :: "product \<Rightarrow> orderOption list \<Rightarrow> real \<Rightarrow> real" where
  "optionsPriceLoop p [] optionsPrice = optionsPrice"
| "optionsPriceLoop p (opt # rest) optionsPrice =
     (case find (\<lambda>o'. optionName o' = chosenOption opt) (productOptions p) of
        None \<Rightarrow> optionsPriceLoop p rest optionsPrice
      | Some productOption \<Rightarrow>
          (case find (\<lambda>c. choiceName c = chosenChoice opt) (choices productOption) of
             None \<Rightarrow> optionsPriceLoop p rest optionsPrice
           | Some ch \<Rightarrow> optionsPriceLoop p rest (optionsPrice + choicePrice ch)))"

text \<open>
  The loop that verifies the products and accumulates the subtotal and the order items;
  each failure is a 400 response.
\<close>

fun verifyItems ::
  "(objectId \<rightharpoonup> product) \<Rightarrow> objectId \<Rightarrow> int \<Rightarrow> requestItem list \<Rightarrow> real \<Rightarrow> orderItem list
     \<Rightarrow> response + (real \<times> orderItem list)" where
  "verifyItems ps sid now [] sub acc = Inr (sub, acc)"
| "verifyItems ps sid now (item # rest) sub acc =
     (case ps (productId item) of
        None \<Rightarrow> Inl BadRequest
      | Some p \<Rightarrow>
          if \<not> isAvailable p \<or> productStore p \<noteq> sid then Inl BadRequest
          else if \<not> isInStock p (quantity item) then Inl BadRequest
          else
            (let unitPrice = finalPrice now p;
                 optionsPrice = (case options item of
                                   None \<Rightarrow> 0
                                 | Some opts \<Rightarrow> optionsPriceLoop p opts 0);
                 totalItemPrice = (unitPrice + optionsPrice) * of_int (quantity item)
             in verifyItems ps sid now rest (sub + totalItemPrice)
                  (acc @ [\<lparr>orderedProduct = productId item, orderedPrice = unitPrice,
                            orderedQuantity = quantity item,
                            orderedOptions = (case options item of None \<Rightarrow> [] | Some opts \<Rightarrow> opts)\<rparr>])))"

text \<open>
  The coupon table written in the handler, and the discount it gives. The table is looked
  up at \<open>couponCode.toUpperCase()\<close>; \<open>String.prototype.toUpperCase\<close> is the platform's
  Unicode upper-casing, which is not written out here: it is the parameter \<open>toUpperCase\<close>.
\<close>

definition validCoupons :: "string \<rightharpoonup> (couponType \<times> real)" where
  "validCoupons =
     map_of [(''FIRST10'', (PercentageCoupon, 10)),
             (''SAVE5'', (FixedCoupon, 5)),
             (''WELCOME20'', (PercentageCoupon, 20))]"

definition applyOrderCoupon ::
  "(string \<Rightarrow> string) \<Rightarrow> string option \<Rightarrow> real \<Rightarrow> real \<times> orderCoupon option" where
  "applyOrderCoupon toUpperCase cc sub =
     (case cc of
        None \<Rightarrow> (0, None)
      | Some c \<Rightarrow>
          if c = [] then (0, None)
          else
            (case validCoupons (toUpperCase c) of
               None \<Rightarrow> (0, None)
             | Some (ty, v) \<Rightarrow>
                 ((case ty of PercentageCoupon \<Rightarrow> sub * (v / 100) | FixedCoupon \<Rightarrow> v),
                  Some \<lparr>orderCouponCode = toUpperCase c, orderCouponType = ty,
                        orderCouponDiscount = v\<rparr>)))"

text \<open>The fees and the total the handler computes from subtotal, delivery fee and discount.\<close>

definition pricingCalculation :: "real \<Rightarrow> real \<Rightarrow> real \<Rightarrow> pricing" where
  "pricingCalculation sub fee disc =
     (let sf = sub * (5 / 100);
          tx = sub * (1 / 10)
      in \<lparr>subtotal = sub, pricingDeliveryFee = fee, serviceFee = sf, tax = tx, discount = disc,
          pricingTotal = max 0 (sub + fee + sf + tx - disc)\<rparr>)"

text \<open>
  The loop that updates the stock after the order is created. An error of the database
  leaves the loop (and the handler, for its \<open>catch\<close>) with the updates made so far.
\<close>

fun decrementStock :: "requestItem list \<Rightarrow> (objectId \<rightharpoonup> product) \<Rightarrow> bool \<times> (objectId \<rightharpoonup> product)" where
  "decrementStock [] ps = (True, ps)"
| "decrementStock (item # rest) ps =
     (case productFindByIdAndUpdate (productId item)
             (incProduct (- quantity item) (quantity item)) ps of
        None \<Rightarrow> (False, ps)
      | Some ps' \<Rightarrow> decrementStock rest ps')"

text \<open>
  \<open>Order.create\<close>, given the order number passed to it, if any. The schema requires
  \<open>orderNumber\<close>. The only code that generates one is a \<open>pre("save")\<close> hook, and the
  validation of a document runs before its \<open>pre("save")\<close> hooks: a document created with no
  order number fails the validation (\<open>None\<close>, the error thrown) and is not stored.
\<close>

definition orderCreate :: "string option \<Rightarrow> order \<Rightarrow> db \<Rightarrow> (order \<times> db) option" where
  "orderCreate orderNumber ord d =
     (case orderNumber of
        None \<Rightarrow> None
      | Some n \<Rightarrow> Some (ord, d\<lparr>orders := orders d @ [ord]\<rparr>))"

text \<open>
  The handler. It passes no order number to \<open>Order.create\<close>. The addresses, the contact
  and payment information and the event sent to the store are not part of the model.
\<close>

definition createOrder ::
  "(string \<Rightarrow> string) \<Rightarrow> objectId \<Rightarrow> int \<Rightarrow> real \<Rightarrow> orderRequest \<Rightarrow> db \<Rightarrow> response \<times> db" where
  "createOrder toUpperCase uid now distance req d =
     (case protect d uid of
        None \<Rightarrow> (Unauthorized, d)
      | Some u \<Rightarrow>
          if validationErrors req then (BadRequest, d)
          else
            (case stores d (storeId req) of
               None \<Rightarrow> (NotFound, d)
             | Some s \<Rightarrow>
                 if \<not> isActive s then (NotFound, d)
                 else if \<not> canDeliverTo s distance then (BadRequest, d)
                 else
                   (case verifyItems (products d) (storeId req) now (items req) 0 [] of
                      Inl r \<Rightarrow> (r, d)
                    | Inr (sub, its) \<Rightarrow>
                        (let (disc, cpn) = applyOrderCoupon toUpperCase (couponCode req) sub;
                             pr = pricingCalculation sub (deliveryFee (deliveryInfo s)) disc;
                             ord = \<lparr>customer = uid, orderStore = storeId req, orderItems = its,
                                    status = Pending, orderPricing = pr, appliedOrderCoupon = cpn,
                                    orderTiming = \<lparr>estimatedPreparation = 20,
                                                   estimatedDelivery = mathRound (20 + distance * 3),
                                                   confirmedAt = None, preparedAt = None,
                                                   pickedUpAt = None, deliveredAt = None\<rparr>,
                                    rating = \<lparr>food = None, delivery = None, overall = None,
                                              ratedAt = None\<rparr>,
                                    cancellationReason = None, loyaltyPointsEarned = 0\<rparr>
                         in case orderCreate None ord d of
                              None \<Rightarrow> (ServerError, d)
                            | Some (created, d1) \<Rightarrow>
                                (case decrementStock (items req) (products d1) of
                                   (False, ps) \<Rightarrow> (ServerError, d1\<lparr>products := ps\<rparr>)
                                 | (True, ps) \<Rightarrow>
                                     (let s' = s\<lparr>storeTotalOrders := storeTotalOrders s + 1,
                                                totalRevenue := totalRevenue s + pricingTotal pr\<rparr>;
                                          u' = u\<lparr>loyaltyPoints :=
                                                 loyaltyPoints u + \<lfloor>pricingTotal pr / 10\<rfloor>\<rparr>
                                      in (Created created,
                                          d1\<lparr>products := ps,
                                             stores := (stores d1)(storeId req \<mapsto> s'),
                                             users := (users d1)(uid \<mapsto> u')\<rparr>)))))))"

subsection \<open>PUT /api/orders/:id/status\<close>

text \<open>
  The authorization test. It reads \<open>order.store.owner\<close> unless the user is an admin, and
  that read throws when the populated store is \<open>null\<close>.
\<close>

definition statusAuthorization :: "user \<Rightarrow> objectId \<Rightarrow> store option \<Rightarrow> response option" where
  "statusAuthorization u uid st =
     (if userRole u = Admin then None
      else
        (case st of
           None \<Rightarrow> Some ServerError
         | Some s \<Rightarrow>
             if owner s \<noteq> uid \<and> userRole u \<noteq> DeliveryDriver then Some Forbidden else None))"

text \<open>
  The values the route's validator of \<open>status\<close> admits. The handler declares the validator
  but never reads its result, so the only check it makes of the requested status is the
  schema's enum, at \<open>save\<close>.
\<close>

definition statusValidatorValues :: "string list" where
  "statusValidatorValues =
     [''confirmed'', ''preparing'', ''ready'', ''on_way'', ''delivered'', ''cancelled'']"

definition putStatus :: "objectId \<Rightarrow> int \<Rightarrow> objectId \<Rightarrow> string \<Rightarrow> db \<Rightarrow> response \<times> db" where
  "putStatus uid now oid requested d =
     (case protect d uid of
        None \<Rightarrow> (Unauthorized, d)
      | Some u \<Rightarrow>
          (case findOrder d oid of
             None \<Rightarrow> (NotFound, d)
           | Some ord \<Rightarrow>
               (case statusAuthorization u uid (stores d (orderStore ord)) of
                  Some r \<Rightarrow> (r, d)
                | None \<Rightarrow>
                    (case statusOfString requested of
                       None \<Rightarrow> (ServerError, d)
                     | Some newStatus \<Rightarrow>
                         (let ord' = updateStatus now ord newStatus
                          in (OK ord', saveOrder d oid ord'))))))"

subsection \<open>PUT /api/orders/:id/cancel\<close>

fun restoreStock :: "orderItem list \<Rightarrow> (objectId \<rightharpoonup> product) \<Rightarrow> bool \<times> (objectId \<rightharpoonup> product)" where
  "restoreStock [] ps = (True, ps)"
| "restoreStock (item # rest) ps =
     (case productFindByIdAndUpdate (orderedProduct item)
             (incProduct (orderedQuantity item) 0) ps of
        None \<Rightarrow> (False, ps)
      | Some ps' \<Rightarrow> restoreStock rest ps')"

definition cancelOrder :: "objectId \<Rightarrow> objectId \<Rightarrow> string option \<Rightarrow> db \<Rightarrow> response \<times> db" where
  "cancelOrder uid oid reason d =
     (case protect d uid of
        None \<Rightarrow> (Unauthorized, d)
      | Some u \<Rightarrow>
          (case findOrder d oid of
             None \<Rightarrow> (NotFound, d)
           | Some ord \<Rightarrow>
               if customer ord \<noteq> uid \<and> userRole u \<noteq> Admin then (Forbidden, d)
               else if \<not> canBeCancelled ord then (BadRequest, d)
               else
                 (let ord' = ord\<lparr>status := Cancelled, cancellationReason := reason\<rparr>;
                      d1 = saveOrder d oid ord'
                  in case restoreStock (orderItems ord') (products d1) of
                       (False, ps) \<Rightarrow> (ServerError, d1\<lparr>products := ps\<rparr>)
                     | (True, ps) \<Rightarrow> (OK ord', d1\<lparr>products := ps\<rparr>))))"

subsection \<open>POST /api/orders/:id/rate\<close>

text \<open>
  The handler. \<open>save\<close> validates the three ratings against the schema before it writes;
  a rejected \<open>save\<close> of the store is an error thrown after the order has been saved.
\<close>

definition rateOrder :: "objectId \<Rightarrow> int \<Rightarrow> objectId \<Rightarrow> int \<Rightarrow> int \<Rightarrow> db \<Rightarrow> response \<times> db" where
  "rateOrder uid now oid foodRating deliveryRating d =
     (case protect d uid of
        None \<Rightarrow> (Unauthorized, d)
      | Some u \<Rightarrow>
          (case findOrder d oid of
             None \<Rightarrow> (NotFound, d)
           | Some ord \<Rightarrow>
               if customer ord \<noteq> uid then (Forbidden, d)
               else if \<not> canBeRated ord then (BadRequest, d)
               else
                 (let ov = mathRound ((of_int foodRating + of_int deliveryRating) / 2);
                      ord' = ord\<lparr>rating := \<lparr>food = Some foodRating, delivery = Some deliveryRating,
                                             overall = Some ov, ratedAt = Some now\<rparr>\<rparr>
                  in if \<not> validRating (rating ord') then (ServerError, d)
                     else
                       (let d1 = saveOrder d oid ord'
                        in case stores d1 (orderStore ord') of
                             None \<Rightarrow> (ServerError, d1)
                           | Some s \<Rightarrow>
                               (case updateRating s (of_int ov) of
                                  None \<Rightarrow> (ServerError, d1)
                                | Some s' \<Rightarrow>
                                    (OK ord', d1\<lparr>stores := (stores d1)(orderStore ord' \<mapsto> s')\<rparr>))))))"

section \<open>Notions used in the statements\<close>

text \<open>The order, if any, in the payload of a response.\<close>

fun responseOrder :: "response \<Rightarrow> order option" where
  "responseOrder (Created ord) = Some ord"
| "responseOrder (OK ord) = Some ord"
| "responseOrder _ = None"



text \<open>
  The stock of a product id: \<open>None\<close> when there is no such product, \<open>Some None\<close> when its
  stock is unlimited, \<open>Some (Some n)\<close> otherwise.
\<close>

definition stockAt :: "(objectId \<rightharpoonup> product) \<Rightarrow> objectId \<Rightarrow> int option option" where
  "stockAt ps pid = map_option stock (ps pid)"

text \<open>
  The status progression in the words of the specification: the chain pending, confirmed,
  preparing, ready, on_way, delivered, with the side exits cancelled and refunded.
\<close>

fun nextStatus :: "orderStatus \<Rightarrow> orderStatus option" where
  "nextStatus Pending = Some Confirmed"
| "nextStatus Confirmed = Some Preparing"
| "nextStatus Preparing = Some Ready"
| "nextStatus Ready = Some OnWay"
| "nextStatus OnWay = Some Delivered"
| "nextStatus _ = None"

definition linearTransition :: "orderStatus \<Rightarrow> orderStatus \<Rightarrow> bool" where
  "linearTransition cur new \<longleftrightarrow> nextStatus cur = Some new \<or> new = Cancelled \<or> new = Refunded"

section \<open>Example data\<close>

text \<open>Concrete coupons, a cart and a small database, on which the statements below are run.\<close>

definition fixedFive :: coupon where
  "fixedFive = \<lparr>code = ''SAVE5'', discountType = Fixed, discountValue = 5,
                maxDiscountAmount = None, usageCount = 0, usedBy = []\<rparr>"

definition tenPercentCapped :: coupon where
  "tenPercentCapped = \<lparr>code = ''TEN'', discountType = Percentage, discountValue = 10,
                       maxDiscountAmount = Some 3, usageCount = 0, usedBy = []\<rparr>"

definition tenPercent :: coupon where
  "tenPercent = \<lparr>code = ''TENFREE'', discountType = Percentage, discountValue = 10,
                 maxDiscountAmount = None, usageCount = 0, usedBy = []\<rparr>"

definition freeDeliveryCoupon :: coupon where
  "freeDeliveryCoupon = \<lparr>code = ''FREEDEL'', discountType = FreeDelivery, discountValue = 0,
                         maxDiscountAmount = None, usageCount = 0, usedBy = []\<rparr>"

definition exampleCart :: cart where
  "exampleCart =
     \<lparr>cartItems = [\<lparr>itemId = 4, itemProduct = 10, itemQuantity = 2, customizations = [],
                    addons = [], itemPrice = 50, totalPrice = 100\<rparr>],
      cartSubtotal = 0, cartTax = 0, cartDeliveryFee = 3, cartServiceFee = 0,
      cartDiscount = 0, cartTotal = 0, cartCoupon = None\<rparr>"

definition exampleStore :: store where
  "exampleStore =
     \<lparr>owner = 8, isActive = True,
      deliveryInfo = \<lparr>deliveryRadius = 5, deliveryFee = 5 / 2\<rparr>,
      storeRating = \<lparr>average = 4, count = 1\<rparr>,
      storeTotalOrders = 0, totalRevenue = 0\<rparr>"

definition miscountedStore :: store where
  "miscountedStore = exampleStore\<lparr>storeRating := \<lparr>average = 2, count = - 3\<rparr>\<rparr>"

definition noDiscount :: productDiscount where
  "noDiscount = \<lparr>pdType = PercentageOff, pdValue = 0, startDate = None, endDate = None,
                 pdIsActive = False\<rparr>"

definition exampleProduct :: product where
  "exampleProduct =
     \<lparr>productStore = 5, price = 10,
      productOptions = [\<lparr>optionName = ''size'',
                         choices = [\<lparr>choiceName = ''large'', choicePrice = 2\<rparr>]\<rparr>],
      isAvailable = True, stock = Some 5, productTotalOrders = 0,
      productDiscount = noDiscount\<rparr>"

definition unlimitedProduct :: product where
  "unlimitedProduct = exampleProduct\<lparr>stock := None\<rparr>"

definition exampleUsers :: "objectId \<rightharpoonup> user" where
  "exampleUsers =
     [7 \<mapsto> \<lparr>userRole = Client, userIsActive = True, loyaltyPoints = 0\<rparr>,
      8 \<mapsto> \<lparr>userRole = StoreOwner, userIsActive = True, loyaltyPoints = 0\<rparr>,
      9 \<mapsto> \<lparr>userRole = Admin, userIsActive = True, loyaltyPoints = 0\<rparr>]"

definition exampleDb :: db where
  "exampleDb =
     \<lparr>stores = [5 \<mapsto> exampleStore],
      products = [10 \<mapsto> exampleProduct, 11 \<mapsto> unlimitedProduct],
      orders = [],
      users = exampleUsers,
      coupons = [fixedFive]\<rparr>"

definition exampleRequest :: orderRequest where
  "exampleRequest =
     \<lparr>storeId = 5,
      items = [\<lparr>productId = 10, quantity = 2,
                options = Some [\<lparr>chosenOption = ''size'', chosenChoice = ''large''\<rparr>]\<rparr>],
      couponCode = Some ''SAVE5''\<rparr>"

definition unlimitedRequest :: orderRequest where
  "unlimitedRequest =
     \<lparr>storeId = 5, items = [\<lparr>productId = 11, quantity = 1, options = None\<rparr>],
      couponCode = None\<rparr>"

definition exampleOrder :: order where
  "exampleOrder =
     \<lparr>customer = 7, orderStore = 5,
      orderItems = [\<lparr>orderedProduct = 10, orderedPrice = 10, orderedQuantity = 2,
                     orderedOptions = [\<lparr>chosenOption = ''size'', chosenChoice = ''large''\<rparr>]\<rparr>],
      status = Pending,
      orderPricing = \<lparr>subtotal = 24, pricingDeliveryFee = 5 / 2, serviceFee = 6 / 5,
                      tax = 12 / 5, discount = 5, pricingTotal = 251 / 10\<rparr>,
      appliedOrderCoupon = Some \<lparr>orderCouponCode = ''SAVE5'', orderCouponType = FixedCoupon,
                                 orderCouponDiscount = 5\<rparr>,
      orderTiming = \<lparr>estimatedPreparation = 20, estimatedDelivery = 26, confirmedAt = None,
                     preparedAt = None, pickedUpAt = None, deliveredAt = None\<rparr>,
      rating = \<lparr>food = None, delivery = None, overall = None, ratedAt = None\<rparr>,
      cancellationReason = None, loyaltyPointsEarned = 0\<rparr>"

definition unlimitedOrder :: order where
  "unlimitedOrder =
     \<lparr>customer = 7, orderStore = 5,
      orderItems = [\<lparr>orderedProduct = 11, orderedPrice = 10, orderedQuantity = 1,
                     orderedOptions = []\<rparr>],
      status = Pending,
      orderPricing = \<lparr>subtotal = 10, pricingDeliveryFee = 5 / 2, serviceFee = 1 / 2,
                      tax = 1, discount = 0, pricingTotal = 14\<rparr>,
      appliedOrderCoupon = None,
      orderTiming = \<lparr>estimatedPreparation = 20, estimatedDelivery = 26, confirmedAt = None,
                     preparedAt = None, pickedUpAt = None, deliveredAt = None\<rparr>,
      rating = \<lparr>food = None, delivery = None, overall = None, ratedAt = None\<rparr>,
      cancellationReason = None, loyaltyPointsEarned = 0\<rparr>"

definition pendingDb :: db where
  "pendingDb = exampleDb\<lparr>orders := [exampleOrder]\<rparr>"

definition deliveredDb :: db where
  "deliveredDb = exampleDb\<lparr>orders := [exampleOrder\<lparr>status := Delivered\<rparr>]\<rparr>"

definition unlimitedDb :: db where
  "unlimitedDb = exampleDb\<lparr>orders := [unlimitedOrder]\<rparr>"

section \<open>Rounding and folding\<close>

lemma foldl_add_sum_list:
  "foldl (\<lambda>s x. s + f x) a xs = a + sum_list (map f xs)"
  by (induction xs arbitrary: a) (simp_all add: add.assoc)

lemma round2_hundredths: "x * 100 = of_int k \<Longrightarrow> round2 x = x"
proof -
  assume h: "x * 100 = of_int k"
  have "\<lfloor>(of_int k :: real) + 1 / 2\<rfloor> = k" by linarith
  then show ?thesis using h by (simp add: round2_def mathRound_def)
qed

lemma round2_mono: "x \<le> y \<Longrightarrow> round2 x \<le> round2 y"
  unfolding round2_def mathRound_def
  by (simp add: divide_right_mono floor_mono)

lemma round2_negative: "x < - (1 / 200) \<Longrightarrow> round2 x < 0"
proof -
  assume "x < - (1 / 200)"
  then have "x * 100 + 1 / 2 < 0" by simp
  then have "\<lfloor>x * 100 + 1 / 2\<rfloor> < 0" by linarith
  then show ?thesis by (simp add: round2_def mathRound_def)
qed

section \<open>The totals of a saved cart\<close>

lemma saveCart_invariant: "cartTotalsInvariant (saveCart c)"
  by (simp add: cartTotalsInvariant_def saveCart_def calculateTotals_def Let_def
      foldl_add_sum_list round2_def mult.commute)

lemma saveCart_fields:
  "cartItems (saveCart c) = cartItems c" "cartDiscount (saveCart c) = cartDiscount c"
  "cartDeliveryFee (saveCart c) = cartDeliveryFee c"
  by (simp_all add: saveCart_def calculateTotals_def Let_def)

text \<open>
  Claim C9. Every cart operation ends in \<open>save\<close>, so the cart it returns satisfies the
  totals invariant: subtotal the sum of the items' total prices, tax and service fee
  10 and 2 per cent of it rounded to two decimals, total the rounded sum less the
  discount (\<open>updateItemQuantity\<close> when it does not throw). The total is not clamped at
  zero: a discount that exceeds the other components by more than half a cent makes it
  negative.
\<close>

theorem cart_operations_keep_totals:
  "cartTotalsInvariant (addItem c productData)
   \<and> (\<forall>c'. updateItemQuantity c i q = Inr c' \<longrightarrow> cartTotalsInvariant c')
   \<and> cartTotalsInvariant (removeItem c i)
   \<and> cartTotalsInvariant (clearCart c)
   \<and> cartTotalsInvariant (applyCoupon c cid cp amount)
   \<and> cartTotalsInvariant (removeCoupon c)
   \<and> (let c' = applyCoupon c cid cp amount
      in cartSubtotal c' + cartTax c' + cartDeliveryFee c' + cartServiceFee c' + 1 / 200 < amount
         \<longrightarrow> cartTotal c' < 0)"
proof -
  have a: "cartTotalsInvariant (addItem c productData)"
    by (simp add: addItem_def Let_def saveCart_invariant split: option.split)
  have u: "\<forall>c'. updateItemQuantity c i q = Inr c' \<longrightarrow> cartTotalsInvariant c'"
    by (auto simp: updateItemQuantity_def Let_def saveCart_invariant split: option.splits if_splits)
  have r: "cartTotalsInvariant (removeItem c i)" "cartTotalsInvariant (clearCart c)"
    "cartTotalsInvariant (applyCoupon c cid cp amount)" "cartTotalsInvariant (removeCoupon c)"
    by (simp_all add: removeItem_def clearCart_def applyCoupon_def removeCoupon_def saveCart_invariant)
  have n: "let c' = applyCoupon c cid cp amount
      in cartSubtotal c' + cartTax c' + cartDeliveryFee c' + cartServiceFee c' + 1 / 200 < amount
         \<longrightarrow> cartTotal c' < 0"
  proof -
    define c' where "c' = applyCoupon c cid cp amount"
    have d: "cartDiscount c' = amount"
      by (simp add: c'_def applyCoupon_def saveCart_fields)
    have t: "cartTotal c' = round2 (cartSubtotal c' + cartTax c' + cartDeliveryFee c'
                                     + cartServiceFee c' - cartDiscount c')"
      using r(3) by (simp add: c'_def cartTotalsInvariant_def)
    have "cartSubtotal c' + cartTax c' + cartDeliveryFee c' + cartServiceFee c' + 1 / 200 < amount
         \<longrightarrow> cartTotal c' < 0"
      unfolding t d by (auto intro!: round2_negative)
    then show ?thesis by (simp add: c'_def Let_def)
  qed
  from a u r n show ?thesis by blast
qed

text \<open>
  On the example cart: setting the quantity of its item to 3 gives a cart that satisfies
  the invariant, with total 171; a discount of 200 gives the total -85.
\<close>

theorem cart_operations_keep_totals_witness:
  "(case updateItemQuantity exampleCart 4 3 of
      Inl e \<Rightarrow> False
    | Inr c' \<Rightarrow> cartTotalsInvariant c' \<and> cartTotal c' = 171)
   \<and> cartTotal (applyCoupon exampleCart 6 fixedFive 200) = - 85"
proof -
  define c' where "c' = saveCart (exampleCart\<lparr>cartItems :=
      [\<lparr>itemId = 4, itemProduct = 10, itemQuantity = 3, customizations = [],
        addons = [], itemPrice = 50, totalPrice = 150\<rparr>]\<rparr>)"
  have u: "updateItemQuantity exampleCart 4 3 = Inr c'"
    by (simp add: updateItemQuantity_def exampleCart_def c'_def Let_def)
  from cart_operations_keep_totals [of exampleCart _ 4 3 6 fixedFive 200] u
  have i: "cartTotalsInvariant c'" by blast
  have t: "cartTotal c' = 171"
    by (simp add: c'_def exampleCart_def saveCart_def calculateTotals_def Let_def mathRound_def)
  have n: "cartTotal (applyCoupon exampleCart 6 fixedFive 200) = - 85"
    by (simp add: applyCoupon_def exampleCart_def saveCart_def calculateTotals_def Let_def mathRound_def)
  show ?thesis using u i t n by simp
qed

section \<open>Cart totals against order pricing\<close>

text \<open>
  Claim C4, as stated, fails. For the example cart (subtotal 100, delivery fee 3, no
  discount) the cart's hook gives a service fee of 2 and a total of 115, while the order
  pricing for the same subtotal, fee and discount gives 5 and 118.
\<close>

theorem cart_order_pricing_counterexample:
  "cartSubtotal (saveCart exampleCart) = 100
   \<and> cartServiceFee (saveCart exampleCart) = 2
   \<and> serviceFee (pricingCalculation 100 (cartDeliveryFee exampleCart) (cartDiscount exampleCart)) = 5
   \<and> cartTotal (saveCart exampleCart) = 115
   \<and> pricingTotal (pricingCalculation 100 (cartDeliveryFee exampleCart) (cartDiscount exampleCart)) = 118"
  by (simp add: exampleCart_def saveCart_def calculateTotals_def Let_def mathRound_def
      pricingCalculation_def)

text \<open>
  Claim C4, amended. For the subtotal, delivery fee and discount of a saved cart, the
  cart's tax is the order's tax rounded to two decimals; the cart's service fee is 2 per
  cent of the subtotal rounded, two fifths of the order's 5 per cent, and the two are
  equal only when the subtotal is 0; the cart's total is the rounded sum less the
  discount, the order's total the unrounded sum clamped at 0.
\<close>

theorem cart_and_order_pricing:
  "(let c' = saveCart c;
        p = pricingCalculation (cartSubtotal c') (cartDeliveryFee c') (cartDiscount c')
    in cartTax c' = round2 (tax p)
       \<and> cartServiceFee c' = round2 (2 / 5 * serviceFee p)
       \<and> (cartServiceFee c' = serviceFee p \<longleftrightarrow> cartSubtotal c' = 0)
       \<and> cartTotal c' = round2 (cartSubtotal c' + cartTax c' + cartDeliveryFee c'
                                  + cartServiceFee c' - cartDiscount c')
       \<and> pricingTotal p = max 0 (cartSubtotal c' + cartDeliveryFee c' + serviceFee p + tax p
                           - cartDiscount c'))"
proof -
  define c' where "c' = saveCart c"
  define s where "s = cartSubtotal c'"
  define p where "p = pricingCalculation s (cartDeliveryFee c') (cartDiscount c')"
  have inv: "cartTotalsInvariant c'" by (simp add: c'_def saveCart_invariant)
  have tx: "cartTax c' = round2 (tax p)"
    using inv by (simp add: cartTotalsInvariant_def p_def pricingCalculation_def s_def)
  have sf: "cartServiceFee c' = round2 (s / 50)" and spf: "serviceFee p = s / 20"
    using inv by (simp_all add: cartTotalsInvariant_def p_def pricingCalculation_def s_def)
  have sf2: "cartServiceFee c' = round2 (2 / 5 * serviceFee p)"
    by (simp add: sf spf)
  have iff: "cartServiceFee c' = serviceFee p \<longleftrightarrow> s = 0"
  proof
    assume e: "cartServiceFee c' = serviceFee p"
    define n where "n = \<lfloor>s * 2 + 1 / 2\<rfloor>"
    from e have "of_int n / 100 = s / 20"
      by (simp add: sf spf round2_def mathRound_def n_def mult.commute)
    then have sn: "s = of_int n / 5" by simp
    have "of_int n \<le> s * 2 + 1 / 2" "s * 2 + 1 / 2 < of_int n + 1"
      unfolding n_def by linarith+
    then have "real_of_int n * 6 \<le> 5" "- 5 < real_of_int n * 6"
      unfolding sn by simp_all
    then have "n \<le> 0" "0 \<le> n" by linarith+
    then show "s = 0" by (simp add: sn)
  next
    assume "s = 0"
    then show "cartServiceFee c' = serviceFee p"
      by (simp add: sf spf round2_def mathRound_def)
  qed
  have tc: "cartTotal c' = round2 (s + cartTax c' + cartDeliveryFee c' + cartServiceFee c'
                                    - cartDiscount c')"
    using inv by (simp add: cartTotalsInvariant_def s_def)
  have tp: "pricingTotal p = max 0 (s + cartDeliveryFee c' + serviceFee p + tax p - cartDiscount c')"
    by (simp add: p_def pricingCalculation_def Let_def)
  show ?thesis
    using tx sf2 iff tc tp
    by (simp add: Let_def c'_def [symmetric] s_def [symmetric] p_def [symmetric])
qed

theorem cart_and_order_pricing_witness:
  "cartSubtotal (saveCart exampleCart) = 100
   \<and> cartTax (saveCart exampleCart) = round2 (tax (pricingCalculation 100 3 0))
   \<and> cartServiceFee (saveCart exampleCart) \<noteq> serviceFee (pricingCalculation 100 3 0)"
proof -
  have s: "cartSubtotal (saveCart exampleCart) = 100" "cartDeliveryFee (saveCart exampleCart) = 3"
    "cartDiscount (saveCart exampleCart) = 0"
    by (simp_all add: exampleCart_def saveCart_def calculateTotals_def Let_def)
  from cart_and_order_pricing [of exampleCart] show ?thesis
    by (simp add: Let_def s)
qed

section \<open>Coupon discounts\<close>

text \<open>
  Claim C7, as stated, fails. A fixed coupon of 5 on an order amount of 0.125 gives
  \<open>Math.round(12.5) / 100 = 0.13\<close>, which is more than the order amount.
\<close>

theorem calculateDiscount_fixed_counterexample:
  "calculateDiscount fixedFive (1 / 8) 0 = 13 / 100
   \<and> \<not> calculateDiscount fixedFive (1 / 8) 0 \<le> 1 / 8"
  by (simp add: calculateDiscount_def fixedFive_def round2_def mathRound_def)

text \<open>
  Claim C7, amended. The result is the rule's value rounded to two decimals. Percentage:
  the value is \<open>orderAmount * discountValue / 100\<close>, capped at \<open>maxDiscountAmount\<close> when that
  is set and not zero. Fixed: the value is the smaller of \<open>discountValue\<close> and the order
  amount, so the result is at most the rounded order amount, and at most the order
  amount itself when that is a whole number of hundredths. Free delivery: the value is the
  delivery fee, so the result is the rounded fee, and the fee itself when that is a whole
  number of hundredths.
\<close>

theorem calculateDiscount_rules:
  "(discountType c = Percentage \<and> maxDiscountAmount c = None \<longrightarrow>
      calculateDiscount c a f = round2 (a * discountValue c / 100))
   \<and> (discountType c = Percentage \<and> maxDiscountAmount c = Some m \<and> m \<noteq> 0 \<longrightarrow>
      calculateDiscount c a f = round2 (min (a * discountValue c / 100) m))
   \<and> (discountType c = Fixed \<longrightarrow>
      calculateDiscount c a f = round2 (min (discountValue c) a)
      \<and> calculateDiscount c a f \<le> round2 a
      \<and> (a * 100 = of_int k \<longrightarrow> calculateDiscount c a f \<le> a))
   \<and> (discountType c = FreeDelivery \<longrightarrow>
      calculateDiscount c a f = round2 f
      \<and> (f * 100 = of_int j \<longrightarrow> calculateDiscount c a f = f))"
proof -
  have p1: "discountType c = Percentage \<and> maxDiscountAmount c = None \<longrightarrow>
      calculateDiscount c a f = round2 (a * discountValue c / 100)"
    by (simp add: calculateDiscount_def)
  have p2: "discountType c = Percentage \<and> maxDiscountAmount c = Some m \<and> m \<noteq> 0 \<longrightarrow>
      calculateDiscount c a f = round2 (min (a * discountValue c / 100) m)"
    by (auto simp: calculateDiscount_def Let_def min_def)
  have fx: "discountType c = Fixed \<longrightarrow>
      calculateDiscount c a f = round2 (min (discountValue c) a)
      \<and> calculateDiscount c a f \<le> round2 a
      \<and> (a * 100 = of_int k \<longrightarrow> calculateDiscount c a f \<le> a)"
  proof
    assume t: "discountType c = Fixed"
    have e: "calculateDiscount c a f = round2 (min (discountValue c) a)"
      using t by (simp add: calculateDiscount_def)
    have l: "calculateDiscount c a f \<le> round2 a"
      unfolding e by (rule round2_mono) simp
    have "a * 100 = of_int k \<longrightarrow> calculateDiscount c a f \<le> a"
      using l round2_hundredths [of a k] by auto
    with e l show "calculateDiscount c a f = round2 (min (discountValue c) a)
      \<and> calculateDiscount c a f \<le> round2 a
      \<and> (a * 100 = of_int k \<longrightarrow> calculateDiscount c a f \<le> a)" by blast
  qed
  have fd: "discountType c = FreeDelivery \<longrightarrow>
      calculateDiscount c a f = round2 f
      \<and> (f * 100 = of_int j \<longrightarrow> calculateDiscount c a f = f)"
    using round2_hundredths [of f j] by (auto simp: calculateDiscount_def)
  from p1 p2 fx fd show ?thesis by blast
qed

text \<open>
  Ten per cent of 25 is 2.50; ten per cent of 50 capped at 3 is 3; a fixed 5 on an order
  of 4 is 4; free delivery of a fee of 2.99 is 2.99.
\<close>

theorem calculateDiscount_rules_witness:
  "calculateDiscount tenPercent 25 2 = 5 / 2
   \<and> calculateDiscount tenPercentCapped 50 2 = 3
   \<and> calculateDiscount fixedFive 4 2 = 4
   \<and> calculateDiscount freeDeliveryCoupon 50 (299 / 100) = 299 / 100"
  using calculateDiscount_rules [where c = tenPercent and a = 25 and f = 2]
    calculateDiscount_rules [where c = tenPercentCapped and m = 3 and a = 50 and f = 2]
    calculateDiscount_rules [where c = fixedFive and a = 4 and k = 400 and f = 2]
    calculateDiscount_rules [where c = freeDeliveryCoupon and a = 50 and f = "299 / 100" and j = 299]
  by (simp add: tenPercent_def tenPercentCapped_def fixedFive_def freeDeliveryCoupon_def
      round2_def mathRound_def)

section \<open>Ratings\<close>

lemmas example_defs =
  exampleDb_def exampleStore_def exampleProduct_def unlimitedProduct_def noDiscount_def
  exampleUsers_def exampleRequest_def unlimitedRequest_def exampleOrder_def unlimitedOrder_def
  pendingDb_def deliveredDb_def unlimitedDb_def fixedFive_def miscountedStore_def

lemmas order_route_defs =
  createOrder_def orderCreate_def protect_def validationErrors_def canDeliverTo_def
  isInStock_def finalPrice_def pricingCalculation_def mathRound_def
  productFindByIdAndUpdate_def incProduct_def
  findOrder_def saveOrder_def canBeCancelled_def cancelOrder_def putStatus_def
  statusAuthorization_def statusOfString_def updateStatus_def calculateLoyaltyPoints_def
  rateOrder_def canBeRated_def validRating_def ratingInBounds_def updateRating_def

text \<open>
  Claim C5, as stated, fails. Nothing keeps a store's rating count from being negative.
  For a store with average 2 and count -3, a new rating of 5 gives the total -1 and the
  count -2, so the average 0.5, which \<open>save\<close> accepts and which is below 1.
\<close>

theorem updateRating_negative_count_counterexample:
  "average (storeRating miscountedStore) = 2
   \<and> count (storeRating miscountedStore) = - 3
   \<and> map_option (average \<circ> storeRating) (updateRating miscountedStore 5) = Some (1 / 2)"
  by (simp add: miscountedStore_def exampleStore_def updateRating_def Let_def)

text \<open>
  Claim C5, amended. For food and delivery ratings that are integers from 1 to 5, the
  overall rating \<open>Math.round((food + delivery) / 2)\<close>, which is what an accepted rating
  stores, is from 1 to 5; and for a store whose rating count is not negative and whose
  average is in [1, 5] (or whose count is 0), \<open>updateRating\<close> with a new rating in [1, 5]
  is saved and gives an average in [1, 5].
\<close>

theorem ratings_stay_in_range:
  "(1 \<le> fr \<and> fr \<le> 5 \<and> 1 \<le> dr \<and> dr \<le> 5 \<longrightarrow>
      1 \<le> mathRound ((of_int fr + of_int dr) / 2) \<and> mathRound ((of_int fr + of_int dr) / 2) \<le> 5)
   \<and> (rateOrder uid now oid fr dr d = (OK ord', d') \<longrightarrow>
      overall (rating ord') = Some (mathRound ((of_int fr + of_int dr) / 2)))
   \<and> (0 \<le> count (storeRating s)
       \<and> (1 \<le> average (storeRating s) \<and> average (storeRating s) \<le> 5 \<or> count (storeRating s) = 0)
       \<and> 1 \<le> r \<and> r \<le> 5 \<longrightarrow>
      (\<exists>s'. updateRating s r = Some s'
         \<and> 1 \<le> average (storeRating s') \<and> average (storeRating s') \<le> 5
         \<and> count (storeRating s') = count (storeRating s) + 1))"
proof -
  have a: "1 \<le> fr \<and> fr \<le> 5 \<and> 1 \<le> dr \<and> dr \<le> 5 \<longrightarrow>
      1 \<le> mathRound ((of_int fr + of_int dr) / 2) \<and> mathRound ((of_int fr + of_int dr) / 2) \<le> 5"
  proof
    assume h: "1 \<le> fr \<and> fr \<le> 5 \<and> 1 \<le> dr \<and> dr \<le> 5"
    then have "(2::real) \<le> of_int fr + of_int dr" "of_int fr + of_int dr \<le> (10::real)"
      by linarith+
    then have "(3::real) / 2 \<le> (of_int fr + of_int dr) / 2 + 1 / 2"
      "(of_int fr + of_int dr) / 2 + 1 / 2 \<le> (11::real) / 2" by simp_all
    then have "1 \<le> \<lfloor>(of_int fr + of_int dr :: real) / 2 + 1 / 2\<rfloor>"
      "\<lfloor>(of_int fr + of_int dr :: real) / 2 + 1 / 2\<rfloor> \<le> 5" by linarith+
    then show "1 \<le> mathRound ((of_int fr + of_int dr) / 2)
        \<and> mathRound ((of_int fr + of_int dr) / 2) \<le> 5"
      by (simp add: mathRound_def)
  qed
  have b: "rateOrder uid now oid fr dr d = (OK ord', d') \<longrightarrow>
      overall (rating ord') = Some (mathRound ((of_int fr + of_int dr) / 2))"
    by (auto simp: rateOrder_def Let_def split: option.splits if_splits)
  have c: "0 \<le> count (storeRating s)
       \<and> (1 \<le> average (storeRating s) \<and> average (storeRating s) \<le> 5 \<or> count (storeRating s) = 0)
       \<and> 1 \<le> r \<and> r \<le> 5 \<longrightarrow>
      (\<exists>s'. updateRating s r = Some s'
         \<and> 1 \<le> average (storeRating s') \<and> average (storeRating s') \<le> 5
         \<and> count (storeRating s') = count (storeRating s) + 1)"
  proof
    assume h: "0 \<le> count (storeRating s)
       \<and> (1 \<le> average (storeRating s) \<and> average (storeRating s) \<le> 5 \<or> count (storeRating s) = 0)
       \<and> 1 \<le> r \<and> r \<le> 5"
    define n where "n = count (storeRating s)"
    define av where "av = average (storeRating s)"
    define a where "a = (av * n + r) / (n + 1)"
    from h have n0: "0 \<le> n" by (simp add: n_def)
    have lo: "n \<le> av * n" and hi: "av * n \<le> 5 * n"
    proof -
      from h consider "1 \<le> av \<and> av \<le> 5" | "n = 0" by (auto simp: n_def av_def)
      then have "n \<le> av * n \<and> av * n \<le> 5 * n"
      proof cases
        case 1
        then show ?thesis using n0 mult_right_mono [of 1 av n] mult_right_mono [of av 5 n] by simp
      next
        case 2
        then show ?thesis by simp
      qed
      then show "n \<le> av * n" "av * n \<le> 5 * n" by simp_all
    qed
    from h have rr: "1 \<le> r" "r \<le> 5" by simp_all
    have "n + 1 \<le> av * n + r" using lo rr by linarith
    moreover have "av * n + r \<le> 5 * n + 5" using hi rr by linarith
    then have "av * n + r \<le> 5 * (n + 1)" by (simp add: algebra_simps)
    ultimately have bounds: "1 \<le> a" "a \<le> 5"
      using n0 by (simp_all add: a_def pos_le_divide_eq pos_divide_le_eq)
    have nz: "n + 1 \<noteq> 0" using n0 by linarith
    have "updateRating s r = Some (s\<lparr>storeRating := \<lparr>average = a, count = n + 1\<rparr>\<rparr>)"
      using bounds nz by (simp add: updateRating_def Let_def a_def n_def av_def)
    then show "\<exists>s'. updateRating s r = Some s'
         \<and> 1 \<le> average (storeRating s') \<and> average (storeRating s') \<le> 5
         \<and> count (storeRating s') = count (storeRating s) + 1"
      using bounds by (simp add: n_def)
  qed
  from a b c show ?thesis by blast
qed

text \<open>
  A customer rates the delivered example order 4 and 5: the overall rating is 5, and the
  store's average moves from 4 to 4.5.
\<close>

theorem ratings_stay_in_range_witness:
  "mathRound ((of_int 4 + of_int 5) / 2) = 5
   \<and> statusCode (fst (rateOrder 7 200 0 4 5 deliveredDb)) = 200
   \<and> map_option (overall \<circ> rating) (responseOrder (fst (rateOrder 7 200 0 4 5 deliveredDb)))
       = Some (Some 5)
   \<and> average (storeRating exampleStore) = 4
   \<and> count (storeRating exampleStore) = 1
   \<and> map_option (average \<circ> storeRating) (updateRating exampleStore 5) = Some (9 / 2)"
proof -
  define r where "r = rateOrder 7 200 0 4 5 deliveredDb"
  have c: "statusCode (fst r) = 200" and o: "responseOrder (fst r) \<noteq> None"
    unfolding r_def by (simp_all add: example_defs order_route_defs Let_def)
  then obtain ord' where e: "fst r = OK ord'" by (cases "fst r") simp_all
  then have e2: "rateOrder 7 200 0 4 5 deliveredDb = (OK ord', snd r)"
    by (simp add: r_def prod_eq_iff)
  from ratings_stay_in_range [of 4 5 7 200 0 deliveredDb ord' "snd r" exampleStore 5] e2
  have ov: "overall (rating ord') = Some (mathRound ((of_int 4 + of_int 5) / 2))"
    and up: "\<exists>s'. updateRating exampleStore 5 = Some s' \<and> 1 \<le> average (storeRating s')"
    by (simp_all add: exampleStore_def) blast
  have m: "mathRound ((of_int 4 + of_int 5) / 2) = 5" by (simp add: mathRound_def)
  have u: "map_option (average \<circ> storeRating) (updateRating exampleStore 5) = Some (9 / 2)"
    by (simp add: exampleStore_def updateRating_def Let_def)
  show ?thesis
    using c e ov m u by (simp add: r_def [symmetric]) (simp add: exampleStore_def)
qed

section \<open>Order creation\<close>



lemma verifyItems_Inl: "verifyItems ps sid now xs sub acc = Inl r \<Longrightarrow> r = BadRequest"
  by (induction xs arbitrary: sub acc) (auto simp: Let_def split: option.splits if_splits)

text \<open>
  Whatever the request, the handler stores nothing and returns no order: every request
  that passes its checks ends in the error of \<open>Order.create\<close>.
\<close>

lemma createOrder_stores_nothing:
  "snd (createOrder toUpperCase uid now distance req d) = d
   \<and> responseOrder (fst (createOrder toUpperCase uid now distance req d)) = None"
  by (auto simp: createOrder_def orderCreate_def Let_def dest: verifyItems_Inl
      split: option.splits sum.splits prod.splits)


section \<open>Order creation and the Coupon documents\<close>


section \<open>Stock\<close>

text \<open>
  Claim C6. The example request asks for 2 of a product with 5 in stock. The answer is
  500, no order is stored and the stock is still 5: the loop that lowers the stock is
  never reached. The cancellation of the order that would have been created (id 0) is
  answered 404, and the stock stays 5. The cancellation of a stored pending order of 2
  of the product does raise its stock, from 5 to 7: nothing had lowered it.
\<close>

theorem createOrder_stock_not_lowered:
  "stockAt (products exampleDb) 10 = Some (Some 5)
   \<and> statusCode (fst (createOrder toUpperCase 7 0 2 exampleRequest exampleDb)) = 500
   \<and> orders (snd (createOrder toUpperCase 7 0 2 exampleRequest exampleDb)) = []
   \<and> stockAt (products (snd (createOrder toUpperCase 7 0 2 exampleRequest exampleDb))) 10
       = Some (Some 5)
   \<and> cancelOrder 7 0 None (snd (createOrder toUpperCase 7 0 2 exampleRequest exampleDb))
       = (NotFound, exampleDb)
   \<and> stockAt (products pendingDb) 10 = Some (Some 5)
   \<and> statusCode (fst (cancelOrder 7 0 None pendingDb)) = 200
   \<and> stockAt (products (snd (cancelOrder 7 0 None pendingDb))) 10 = Some (Some 7)"
proof -
  have c: "statusCode (fst (createOrder toUpperCase 7 0 2 exampleRequest exampleDb)) = 500"
    by (simp add: example_defs order_route_defs Let_def split: prod.split)
  have s: "snd (createOrder toUpperCase 7 0 2 exampleRequest exampleDb) = exampleDb"
    by (simp add: createOrder_stores_nothing)
  have k: "stockAt (products exampleDb) 10 = Some (Some 5)" "orders exampleDb = []"
    by (simp_all add: stockAt_def example_defs)
  have x: "cancelOrder 7 0 None exampleDb = (NotFound, exampleDb)"
    by (simp add: cancelOrder_def protect_def findOrder_def exampleDb_def exampleUsers_def)
  have y: "stockAt (products pendingDb) 10 = Some (Some 5)"
    "statusCode (fst (cancelOrder 7 0 None pendingDb)) = 200"
    "stockAt (products (snd (cancelOrder 7 0 None pendingDb))) 10 = Some (Some 7)"
    by (simp_all add: example_defs order_route_defs Let_def stockAt_def)
  show ?thesis
    unfolding s using c k x y by simp
qed

section \<open>Cancellation\<close>

text \<open>
  The guard of the cancel handler, for an order that exists and a user who is its
  customer or an admin: in any status but pending and confirmed the answer is 400 and
  nothing changes; in those two the order is marked as cancelled.
\<close>

lemma cancelOrder_guard:
  "protect d uid = Some u \<Longrightarrow> findOrder d oid = Some ord \<Longrightarrow>
   customer ord = uid \<or> userRole u = Admin \<Longrightarrow>
   (status ord \<noteq> Pending \<and> status ord \<noteq> Confirmed \<longrightarrow>
      cancelOrder uid oid reason d = (BadRequest, d))
   \<and> (status ord = Pending \<or> status ord = Confirmed \<longrightarrow>
        map_option status (findOrder (snd (cancelOrder uid oid reason d)) oid) = Some Cancelled)"
  by (auto simp: cancelOrder_def canBeCancelled_def Let_def findOrder_def saveOrder_def
      split: prod.splits bool.splits)

text \<open>
  Claim C8. The claim asks that cancelling a pending order succeed. A stored pending
  order with an item whose product has the stock \<open>null\<close> (the schema's default,
  "unlimited") breaks this: the handler marks the order as cancelled and saves it, then
  the stock update, a \<open>$inc\<close> on \<open>null\<close>, throws, and the answer is 500.
  \<open>Product.updateStock\<close> guards the \<open>null\<close> case; the route does not.
\<close>

theorem cancel_unlimited_stock_failure:
  "map status (orders unlimitedDb) = [Pending]
   \<and> map (map orderedProduct \<circ> orderItems) (orders unlimitedDb) = [[11]]
   \<and> stockAt (products unlimitedDb) 11 = Some None
   \<and> statusCode (fst (cancelOrder 7 0 None unlimitedDb)) = 500
   \<and> map status (orders (snd (cancelOrder 7 0 None unlimitedDb))) = [Cancelled]"
  by (simp add: example_defs order_route_defs Let_def stockAt_def)

section \<open>Status updates\<close>

lemma findOrder_saveOrder:
  "findOrder d oid = Some ord \<Longrightarrow> findOrder (saveOrder d oid ord') oid = Some ord'"
  by (auto simp: findOrder_def saveOrder_def split: if_splits)

lemma updateStatus_status: "status (updateStatus now ord st) = st"
  by (cases st) (simp_all add: updateStatus_def Let_def)

lemma statusAuthorization_refusal:
  "statusAuthorization u uid st = Some r \<Longrightarrow> r = ServerError \<or> r = Forbidden"
  by (auto simp: statusAuthorization_def split: if_splits option.splits)

lemma statusValidatorValues_parse:
  "requested \<in> set statusValidatorValues \<Longrightarrow> \<exists>st. statusOfString requested = Some st"
  by (auto simp: statusValidatorValues_def statusOfString_def)

text \<open>
  Claim C2, as stated, fails. An admin's request to set the delivered example order to
  confirmed is accepted (200) and the stored status becomes confirmed, which is neither
  the successor of delivered nor a side exit.
\<close>

theorem status_update_counterexample:
  "map status (orders deliveredDb) = [Delivered]
   \<and> statusCode (fst (putStatus 9 100 0 ''confirmed'' deliveredDb)) = 200
   \<and> map status (orders (snd (putStatus 9 100 0 ''confirmed'' deliveredDb))) = [Confirmed]
   \<and> \<not> linearTransition Delivered Confirmed"
  by (simp add: example_defs order_route_defs Let_def linearTransition_def)

text \<open>
  Claim C2, amended. For an existing order, an authorized user and a requested status
  that is one of the six the route's validator admits (confirmed, preparing, ready,
  on_way, delivered, cancelled), the update is accepted and the stored status is the
  requested one, whatever the current status.
\<close>

theorem putStatus_sets_requested_status:
  "protect d uid = Some u \<and> findOrder d oid = Some ord
     \<and> statusAuthorization u uid (stores d (orderStore ord)) = None
     \<and> requested \<in> set statusValidatorValues \<longrightarrow>
      (\<exists>ord'. putStatus uid now oid requested d = (OK ord', saveOrder d oid ord')
         \<and> statusOfString requested = Some (status ord')
         \<and> findOrder (saveOrder d oid ord') oid = Some ord')"
proof
  assume h: "protect d uid = Some u \<and> findOrder d oid = Some ord
     \<and> statusAuthorization u uid (stores d (orderStore ord)) = None
     \<and> requested \<in> set statusValidatorValues"
  then obtain st where st: "statusOfString requested = Some st"
    using statusValidatorValues_parse by blast
  from h st show "\<exists>ord'. putStatus uid now oid requested d = (OK ord', saveOrder d oid ord')
         \<and> statusOfString requested = Some (status ord')
         \<and> findOrder (saveOrder d oid ord') oid = Some ord'"
    by (simp add: putStatus_def Let_def updateStatus_status findOrder_saveOrder)
qed

text \<open>The store's owner moves the pending example order straight to delivered.\<close>

theorem putStatus_sets_requested_status_witness:
  "protect pendingDb 8 = Some \<lparr>userRole = StoreOwner, userIsActive = True, loyaltyPoints = 0\<rparr>
   \<and> findOrder pendingDb 0 = Some exampleOrder
   \<and> ''delivered'' \<in> set statusValidatorValues
   \<and> statusCode (fst (putStatus 8 100 0 ''delivered'' pendingDb)) = 200
   \<and> map status (orders pendingDb) = [Pending]
   \<and> map status (orders (snd (putStatus 8 100 0 ''delivered'' pendingDb))) = [Delivered]"
proof -
  have p: "protect pendingDb 8
      = Some \<lparr>userRole = StoreOwner, userIsActive = True, loyaltyPoints = 0\<rparr>"
    by (simp add: example_defs protect_def)
  have f: "findOrder pendingDb 0 = Some exampleOrder"
    by (simp add: pendingDb_def findOrder_def)
  have a: "statusAuthorization \<lparr>userRole = StoreOwner, userIsActive = True, loyaltyPoints = 0\<rparr> 8
             (stores pendingDb (orderStore exampleOrder)) = None"
    by (simp add: example_defs statusAuthorization_def)
  have v: "''delivered'' \<in> set statusValidatorValues"
    by (simp add: statusValidatorValues_def)
  have s: "statusOfString ''delivered'' = Some Delivered"
    by (simp add: statusOfString_def)
  from putStatus_sets_requested_status
    [of pendingDb 8 _ 0 exampleOrder "''delivered''" 100] p f a v
  obtain ord' where
    r: "putStatus 8 100 0 ''delivered'' pendingDb = (OK ord', saveOrder pendingDb 0 ord')"
    and st: "statusOfString ''delivered'' = Some (status ord')"
    by blast
  from s st have sd: "status ord' = Delivered" by simp
  have o: "orders pendingDb = [exampleOrder]" by (simp add: pendingDb_def)
  have c: "statusCode (fst (putStatus 8 100 0 ''delivered'' pendingDb)) = 200"
    by (simp add: r)
  have n: "map status (orders (snd (putStatus 8 100 0 ''delivered'' pendingDb))) = [Delivered]"
    by (simp add: r saveOrder_def o sd)
  have b: "map status (orders pendingDb) = [Pending]"
    by (simp add: o exampleOrder_def)
  from p f v c n b show ?thesis by blast
qed

section \<open>Rating an order\<close>

lemma canBeRated_after_rating:
  "validRating (rating ord) \<Longrightarrow> overall (rating ord) = Some ov \<Longrightarrow> \<not> canBeRated ord"
  by (auto simp: canBeRated_def validRating_def ratingInBounds_def)

text \<open>
  Claim C10. A rating is accepted only for a delivered order with no overall rating.
  After an accepted rating, a further rating of the same order by its customer is
  answered 400; a further rating by anyone returns no order and leaves the whole
  database, so the order's rating and the store's aggregate, as it was.
\<close>

theorem rateOrder_at_most_once:
  assumes "rateOrder uid now oid fr dr d = (OK ord1, d1)"
  shows "(\<exists>ord. findOrder d oid = Some ord \<and> status ord = Delivered
            \<and> (overall (rating ord) = None \<or> overall (rating ord) = Some 0))
    \<and> rateOrder uid now' oid fr' dr' d1 = (BadRequest, d1)
    \<and> snd (rateOrder uid' now' oid fr' dr' d1) = d1
    \<and> responseOrder (fst (rateOrder uid' now' oid fr' dr' d1)) = None"
proof -
  from assms obtain u ord s where
    pr: "protect d uid = Some u" and fo: "findOrder d oid = Some ord"
    and cu: "customer ord = uid" and cr: "canBeRated ord"
    and st: "stores d (orderStore ord) = Some s"
    by (auto simp: rateOrder_def Let_def saveOrder_def split: option.splits if_splits)
  define ov where "ov = mathRound ((of_int fr + of_int dr) / 2)"
  define ord' where "ord' = ord\<lparr>rating := \<lparr>food = Some fr, delivery = Some dr,
                                             overall = Some ov, ratedAt = Some now\<rparr>\<rparr>"
  from assms pr fo cu cr st obtain s' where vr: "validRating (rating ord')"
    and d1: "d1 = (saveOrder d oid ord')\<lparr>stores := (stores d)(orderStore ord \<mapsto> s')\<rparr>"
    by (auto simp: rateOrder_def Let_def saveOrder_def ord'_def ov_def
        split: if_splits option.splits)
  have fo1: "findOrder d1 oid = Some ord'"
    using fo by (auto simp: d1 findOrder_def saveOrder_def split: if_splits)
  have pr1: "protect d1 uid = Some u"
    using pr by (simp add: d1 protect_def saveOrder_def)
  have ncr: "\<not> canBeRated ord'"
    by (rule canBeRated_after_rating [OF vr]) (simp add: ord'_def)
  have cu1: "customer ord' = uid" by (simp add: ord'_def cu)
  have again: "rateOrder uid now' oid fr' dr' d1 = (BadRequest, d1)"
    by (simp add: rateOrder_def pr1 fo1 cu1 ncr)
  have any: "snd (rateOrder uid' now' oid fr' dr' d1) = d1
    \<and> responseOrder (fst (rateOrder uid' now' oid fr' dr' d1)) = None"
    by (simp add: rateOrder_def fo1 ncr split: option.splits)
  from fo cr again any show ?thesis
    by (auto simp: canBeRated_def)
qed

text \<open>
  The customer rates the delivered example order, which stores the overall rating 5; the
  second rating is answered 400 and changes nothing.
\<close>

theorem rateOrder_at_most_once_witness:
  "statusCode (fst (rateOrder 7 200 0 4 5 deliveredDb)) = 200
   \<and> rateOrder 7 300 0 1 1 (snd (rateOrder 7 200 0 4 5 deliveredDb))
       = (BadRequest, snd (rateOrder 7 200 0 4 5 deliveredDb))
   \<and> map (overall \<circ> rating) (orders (snd (rateOrder 7 200 0 4 5 deliveredDb))) = [Some 5]"
proof -
  define r where "r = rateOrder 7 200 0 4 5 deliveredDb"
  have c: "statusCode (fst r) = 200" and o: "responseOrder (fst r) \<noteq> None"
    and ov: "map (overall \<circ> rating) (orders (snd r)) = [Some 5]"
    unfolding r_def by (simp_all add: example_defs order_route_defs Let_def)
  then obtain ord' where e: "fst r = OK ord'" by (cases "fst r") simp_all
  then have e2: "rateOrder 7 200 0 4 5 deliveredDb = (OK ord', snd r)"
    by (simp add: r_def prod_eq_iff)
  from rateOrder_at_most_once [OF e2, of 300 1 1 7]
  have "rateOrder 7 300 0 1 1 (snd r) = (BadRequest, snd r)" by blast
  then show ?thesis using c ov by (simp add: r_def)
qed

end
